theory Spec2Isabelle
  imports Main
begin

section \<open>Python values\<close>

text \<open>
  The job monitor (\<^verbatim>\<open>src/app.py\<close>) is a Python program. Exceptions are values of
  \<open>exn\<close>; a computation that may raise has type \<open>exn + 'a\<close> with \<open>Inl\<close> for the raised
  exception. Every constructor stands for a subclass of Python's \<^verbatim>\<open>Exception\<close>, which is
  what the handlers \<^verbatim>\<open>except Exception\<close> of the source catch.
\<close>

datatype exn = ValueError | TypeError | KeyError | OtherError string

definition try_bind :: "exn + 'a \<Rightarrow> ('a \<Rightarrow> exn + 'b) \<Rightarrow> exn + 'b" where
  "try_bind m f = (case m of Inl e \<Rightarrow> Inl e | Inr x \<Rightarrow> f x)"

subsection \<open>Strings\<close>

text \<open>
  A Python \<^verbatim>\<open>str\<close> is a list of code points; the model keeps the code points below 256,
  one \<open>char\<close> each. \<open>isspace\<close> lists the code points below 256 for which
  \<^verbatim>\<open>str.isspace\<close> holds (they are also what \<^verbatim>\<open>\s\<close> matches), \<open>strip\<close> is
  \<^verbatim>\<open>str.strip()\<close> and \<open>lower\<close> is \<^verbatim>\<open>str.lower()\<close>.
\<close>

definition isspace :: "char \<Rightarrow> bool" where
  "isspace c = ((of_char c :: nat) \<in> {9, 10, 11, 12, 13, 28, 29, 30, 31, 32, 133, 160})"

definition strip :: "string \<Rightarrow> string" where
  "strip s = rev (dropWhile isspace (rev (dropWhile isspace s)))"

definition lower_char :: "char \<Rightarrow> char" where
  "lower_char c =
     (let n = (of_char c :: nat)
      in if (65 \<le> n \<and> n \<le> 90) \<or> (192 \<le> n \<and> n \<le> 222 \<and> n \<noteq> 215)
         then char_of (n + 32) else c)"

definition lower :: "string \<Rightarrow> string" where
  "lower s = map lower_char s"

text \<open>\<^verbatim>\<open>t in s\<close> on strings: \<open>t\<close> occurs in \<open>s\<close> as a contiguous run.\<close>

fun str_in :: "string \<Rightarrow> string \<Rightarrow> bool" where
  "str_in t [] = (t = [])"
| "str_in t (c # cs) = (take (length t) (c # cs) = t \<or> str_in t cs)"

text \<open>Decimal rendering of an integer, as \<^verbatim>\<open>str(n)\<close> and \<^verbatim>\<open>f"{n}"\<close> give it.\<close>

definition digit_char :: "nat \<Rightarrow> char" where
  "digit_char d = char_of (48 + d)"

fun str_nat :: "nat \<Rightarrow> string" where
  "str_nat n = (if n < 10 then [digit_char n] else str_nat (n div 10) @ [digit_char (n mod 10)])"

declare str_nat.simps [simp del]

definition str_int :: "int \<Rightarrow> string" where
  "str_int i = (if i < 0 then CHR ''-'' # str_nat (nat (- i)) else str_nat (nat i))"

text \<open>
  \<^verbatim>\<open>int(text)\<close> on the text a \<^verbatim>\<open>strptime\<close> directive has matched: decimal digits,
  possibly after a blank (surrounding white space is ignored by \<^verbatim>\<open>int\<close>).
\<close>

definition digit_val :: "char \<Rightarrow> int" where
  "digit_val c = of_char c - 48"

definition int_of_digits :: "string \<Rightarrow> int" where
  "int_of_digits s = foldl (\<lambda>a c. 10 * a + digit_val c) 0 (strip s)"

subsection \<open>Timestamps\<close>

text \<open>
  A timestamp is a \<^verbatim>\<open>datetime\<close> at whole-second resolution, which is what
  \<^verbatim>\<open>datetime.strptime\<close> builds from the five formats of the source (none has a
  fraction or a zone directive). \<open>tzinfo\<close> is \<open>None\<close> for a naive value and the offset
  from UTC in seconds for an aware one; only the fallback parser can produce an aware value.
  Values with a fraction of a second and pandas' not-a-time value, which only the fallback
  parser could return, are outside the model.
  The ordinal of a date follows \<^verbatim>\<open>_ymd2ord\<close> of Python's \<^verbatim>\<open>datetime\<close> module.
\<close>

record timestamp =
  year :: int
  month :: int
  day :: int
  hour :: int
  minute :: int
  second :: int
  tzinfo :: "int option"

definition is_leap :: "int \<Rightarrow> bool" where
  "is_leap y = (y mod 4 = 0 \<and> (y mod 100 \<noteq> 0 \<or> y mod 400 = 0))"

definition month_days :: "int list" where
  "month_days = [31, 28, 31, 30, 31, 30, 31, 31, 30, 31, 30, 31]"

definition days_in_month :: "int \<Rightarrow> int \<Rightarrow> int" where
  "days_in_month y m = (if m = 2 \<and> is_leap y then 29 else month_days ! nat (m - 1))"

definition days_before_year :: "int \<Rightarrow> int" where
  "days_before_year y = (let p = y - 1 in p * 365 + p div 4 - p div 100 + p div 400)"

definition days_before_month :: "int \<Rightarrow> int \<Rightarrow> int" where
  "days_before_month y m =
     sum_list (take (nat (m - 1)) month_days) + (if 2 < m \<and> is_leap y then 1 else 0)"

definition ymd2ord :: "int \<Rightarrow> int \<Rightarrow> int \<Rightarrow> int" where
  "ymd2ord y m d = days_before_year y + days_before_month y m + d"

definition seconds_of :: "timestamp \<Rightarrow> int" where
  "seconds_of t =
     ymd2ord (year t) (month t) (day t) * 86400 + hour t * 3600 + minute t * 60 + second t"

text \<open>
  The constructor \<^verbatim>\<open>datetime(y, m, d, H, M, S)\<close> raises \<^verbatim>\<open>ValueError\<close> outside the
  ranges it checks; the value it builds is naive.
\<close>

definition make_datetime :: "int \<Rightarrow> int \<Rightarrow> int \<Rightarrow> int \<Rightarrow> int \<Rightarrow> int \<Rightarrow> exn + timestamp" where
  "make_datetime y m d H M S =
     (if y < 1 \<or> 9999 < y then Inl ValueError
      else if m < 1 \<or> 12 < m then Inl ValueError
      else if d < 1 \<or> days_in_month y m < d then Inl ValueError
      else if H < 0 \<or> 23 < H then Inl ValueError
      else if M < 0 \<or> 59 < M then Inl ValueError
      else if S < 0 \<or> 59 < S then Inl ValueError
      else Inr \<lparr>year = y, month = m, day = d, hour = H, minute = M, second = S,
                tzinfo = None\<rparr>)"

text \<open>
  \<open>ts_sub a b\<close> is \<^verbatim>\<open>(a - b).total_seconds()\<close>: the difference in seconds, or
  \<^verbatim>\<open>TypeError\<close> when one operand is naive and the other aware. On whole seconds inside
  the range of \<^verbatim>\<open>datetime\<close> the float that Python returns is this integer exactly.
\<close>

definition ts_sub :: "timestamp \<Rightarrow> timestamp \<Rightarrow> exn + int" where
  "ts_sub a b =
     (case (tzinfo a, tzinfo b) of
        (None, None) \<Rightarrow> Inr (seconds_of a - seconds_of b)
      | (Some oa, Some ob) \<Rightarrow> Inr ((seconds_of a - oa) - (seconds_of b - ob))
      | _ \<Rightarrow> Inl TypeError)"

subsection \<open>\<^verbatim>\<open>datetime.strptime\<close>\<close>

text \<open>
  \<^verbatim>\<open>strptime\<close> turns the format into a regular expression, matches it at the start of
  the text ignoring case, and rejects the text when the match does not reach its end. Each
  directive is an alternation of sequences of character classes, tried left to right; white
  space in the format stands for \<^verbatim>\<open>\s+\<close>. The tables below are the entries of
  \<^verbatim>\<open>_strptime.TimeRE\<close> for the six directives the source uses.
\<close>

datatype directive = DY | Dm | Dd | DH | DM | DS

datatype item = Dir directive | Lit char | Spaces

definition digits :: string where
  "digits = ''0123456789''"

definition digits19 :: string where
  "digits19 = ''123456789''"

fun directive_re :: "directive \<Rightarrow> string list list" where
  "directive_re DY = [[digits, digits, digits, digits]]"
| "directive_re Dm = [[''1'', ''012''], [''0'', digits19], [digits19]]"
| "directive_re Dd =
     [[''3'', ''01''], [''12'', digits], [''0'', digits19], [digits19], ['' '', digits19]]"
| "directive_re DH = [[''2'', ''0123''], [''01'', digits], [digits]]"
| "directive_re DM = [[''012345'', digits], [digits]]"
| "directive_re DS = [[''6'', ''01''], [''012345'', digits], [digits]]"

fun directive_of :: "char \<Rightarrow> directive option" where
  "directive_of c =
     (if c = CHR ''Y'' then Some DY else if c = CHR ''m'' then Some Dm
      else if c = CHR ''d'' then Some Dd else if c = CHR ''H'' then Some DH
      else if c = CHR ''M'' then Some DM else if c = CHR ''S'' then Some DS
      else None)"

function compile_format :: "string \<Rightarrow> item list option" where
  "compile_format [] = Some []"
| "compile_format (c # cs) =
     (if c = CHR ''%'' then
        (case cs of
           [] \<Rightarrow> None
         | d # ds \<Rightarrow>
             (case directive_of d of
                None \<Rightarrow> None
              | Some dir \<Rightarrow> map_option ((#) (Dir dir)) (compile_format ds)))
      else if isspace c then map_option ((#) Spaces) (compile_format (dropWhile isspace cs))
      else map_option ((#) (Lit c)) (compile_format cs))"
  by pat_completeness auto
termination
  by (relation "measure length") (auto simp: length_dropWhile_le less_Suc_eq_le)

text \<open>One alternative against the start of the text: the matched text and the rest.\<close>

fun match_alt :: "string list \<Rightarrow> string \<Rightarrow> (string \<times> string) option" where
  "match_alt [] s = Some ([], s)"
| "match_alt (cls # clss) [] = None"
| "match_alt (cls # clss) (c # cs) =
     (if c \<in> set cls
      then (case match_alt clss cs of None \<Rightarrow> None | Some (m, r) \<Rightarrow> Some (c # m, r))
      else None)"

fun first_some :: "('a \<Rightarrow> 'b option) \<Rightarrow> 'a list \<Rightarrow> 'b option" where
  "first_some f [] = None"
| "first_some f (x # xs) = (case f x of None \<Rightarrow> first_some f xs | Some y \<Rightarrow> Some y)"

text \<open>
  The backtracking match: the first way, in the order of the alternatives (and for
  \<^verbatim>\<open>\s+\<close> from the longest run down to one character), in which the whole pattern
  matches a prefix of the text. The result is the text found for each directive and the
  unmatched rest.
\<close>

fun re_match :: "item list \<Rightarrow> string \<Rightarrow> ((directive \<times> string) list \<times> string) option" where
  "re_match [] s = Some ([], s)"
| "re_match (Lit c # fs) s =
     (case s of
        [] \<Rightarrow> None
      | x # xs \<Rightarrow> if lower_char x = lower_char c then re_match fs xs else None)"
| "re_match (Spaces # fs) s =
     first_some (\<lambda>k. re_match fs (drop k s)) (rev [1 ..< Suc (length (takeWhile isspace s))])"
| "re_match (Dir d # fs) s =
     first_some
       (\<lambda>alt. case match_alt alt s of
                 None \<Rightarrow> None
               | Some (m, r) \<Rightarrow>
                   (case re_match fs r of
                      None \<Rightarrow> None
                    | Some (found, rest) \<Rightarrow> Some ((d, m) # found, rest)))
       (directive_re d)"

definition field :: "(directive \<times> string) list \<Rightarrow> directive \<Rightarrow> int \<Rightarrow> int" where
  "field found d dflt = (case map_of found d of None \<Rightarrow> dflt | Some txt \<Rightarrow> int_of_digits txt)"

definition strptime :: "string \<Rightarrow> string \<Rightarrow> exn + timestamp" where
  "strptime data_string format =
     (case compile_format format of
        None \<Rightarrow> Inl ValueError
      | Some fmt \<Rightarrow>
          (case re_match fmt data_string of
             None \<Rightarrow> Inl ValueError
           | Some (found, rest) \<Rightarrow>
               if rest \<noteq> [] then Inl ValueError
               else make_datetime (field found DY 1900) (field found Dm 1) (field found Dd 1)
                      (field found DH 0) (field found DM 0) (field found DS 0)))"

section \<open>Deriving a job from a spreadsheet row\<close>

subsection \<open>\<^verbatim>\<open>parse_datetime\<close>\<close>

text \<open>
  \<^verbatim>\<open>pd.to_datetime\<close> belongs to the pandas library, not to this repository: it is the
  parameter \<open>to_datetime\<close>, any function from the text to a timestamp or an exception.
  \<open>try_formats\<close> is the \<^verbatim>\<open>for fmt in formats\<close> loop: it returns at the first format
  that parses, goes on after a \<^verbatim>\<open>ValueError\<close>, and lets any other exception through
  to the outer handler. \<open>parse_datetime_try\<close> is the body of the outer \<^verbatim>\<open>try\<close>.
\<close>

definition formats :: "string list" where
  "formats =
     [''%Y-%m-%dT%H:%M:%S'',
      ''%Y-%m-%d %H:%M:%S'',
      ''%Y-%m-%d'',
      ''%m/%d/%Y %H:%M:%S'',
      ''%m/%d/%Y'']"

fun try_formats :: "string \<Rightarrow> string list \<Rightarrow> exn + timestamp option" where
  "try_formats s [] = Inr None"
| "try_formats s (fmt # fmts) =
     (case strptime s fmt of
        Inr t \<Rightarrow> Inr (Some t)
      | Inl ValueError \<Rightarrow> try_formats s fmts
      | Inl e \<Rightarrow> Inl e)"

definition parse_datetime_try :: "(string \<Rightarrow> exn + timestamp) \<Rightarrow> string \<Rightarrow> exn + timestamp" where
  "parse_datetime_try to_datetime datetime_str =
     (case try_formats (strip datetime_str) formats of
        Inl e \<Rightarrow> Inl e
      | Inr (Some t) \<Rightarrow> Inr t
      | Inr None \<Rightarrow> to_datetime (strip datetime_str))"

definition parse_datetime ::
  "(string \<Rightarrow> exn + timestamp) \<Rightarrow> string \<Rightarrow> exn + timestamp option" where
  "parse_datetime to_datetime datetime_str =
     (if datetime_str = [] \<or> strip datetime_str = [] then Inr None
      else (case parse_datetime_try to_datetime datetime_str of
              Inl e \<Rightarrow> Inr None
            | Inr t \<Rightarrow> Inr (Some t)))"

subsection \<open>\<^verbatim>\<open>calculate_duration\<close> and \<^verbatim>\<open>determine_status\<close>\<close>

text \<open>
  \<open>None\<close> is Python's \<^verbatim>\<open>None\<close>; a \<^verbatim>\<open>datetime\<close> is always true in a condition, so
  \<^verbatim>\<open>not start_time\<close> holds exactly for \<open>None\<close>. The seconds are not negative where
  \<^verbatim>\<open>int(total_seconds / 60)\<close> is computed, so the truncation is the integer quotient.
\<close>

definition calculate_duration :: "timestamp option \<Rightarrow> timestamp option \<Rightarrow> string option" where
  "calculate_duration start_time end_time =
     (case start_time of
        None \<Rightarrow> None
      | Some s \<Rightarrow>
          (case end_time of
             None \<Rightarrow> Some ''Running''
           | Some e \<Rightarrow>
               (case ts_sub e s of
                  Inl ex \<Rightarrow> Some ''Invalid''
                | Inr total_seconds \<Rightarrow>
                    if total_seconds < 0 then Some ''Invalid''
                    else
                      (let minutes = total_seconds div 60;
                           hours = minutes div 60
                       in if 0 < hours
                          then Some (str_int hours @ ''h '' @ str_int (minutes mod 60) @ ''m'')
                          else Some (str_int minutes @ ''m'')))))"

definition determine_status :: "timestamp option \<Rightarrow> timestamp option \<Rightarrow> string" where
  "determine_status start_time end_time =
     (case start_time of
        None \<Rightarrow> ''failed''
      | Some s \<Rightarrow>
          (case end_time of
             None \<Rightarrow> ''running''
           | Some e \<Rightarrow>
               (case ts_sub e s of
                  Inl ex \<Rightarrow> ''failed''
                | Inr total_seconds \<Rightarrow>
                    if 2 * 60 * 60 < total_seconds then ''delayed'' else ''completed'')))"

subsection \<open>\<^verbatim>\<open>process_job_data\<close>\<close>

text \<open>
  \<open>raw_job\<close> is the dictionary that the loader builds from a row; \<open>job\<close> is that
  dictionary after \<^verbatim>\<open>process_job_data\<close> has added the four derived entries.
\<close>

record raw_job =
  job_id :: string
  jobName :: string
  startTime :: string
  endTime :: string
  dependency :: string
  description :: string
  priority :: string

record job = raw_job +
  status :: string
  duration :: "string option"
  startTimeParsed :: "timestamp option"
  endTimeParsed :: "timestamp option"

definition process_job_data :: "(string \<Rightarrow> exn + timestamp) \<Rightarrow> raw_job \<Rightarrow> exn + job" where
  "process_job_data to_datetime j =
     try_bind (parse_datetime to_datetime (startTime j)) (\<lambda>start_time.
     try_bind (parse_datetime to_datetime (endTime j)) (\<lambda>end_time.
       Inr (raw_job.extend j
              \<lparr>status = determine_status start_time end_time,
               duration = calculate_duration start_time end_time,
               startTimeParsed = start_time,
               endTimeParsed = end_time\<rparr>)))"

section \<open>The job store\<close>

text \<open>
  A cell of the data frame is what the source asks of it: \<open>notna\<close> is
  \<^verbatim>\<open>pd.notna(value)\<close> and \<open>str\<close> is \<^verbatim>\<open>str(value)\<close>. A row maps column names to
  cells; \<^verbatim>\<open>row[name]\<close> raises \<^verbatim>\<open>KeyError\<close> for a column the sheet does not have.
\<close>

record cell =
  notna :: bool
  str :: string

type_synonym row = "string \<Rightarrow> cell option"

definition getitem :: "row \<Rightarrow> string \<Rightarrow> exn + cell" where
  "getitem r name = (case r name of None \<Rightarrow> Inl KeyError | Some c \<Rightarrow> Inr c)"

text \<open>\<^verbatim>\<open>str(value).strip() if pd.notna(value) else default\<close>\<close>

definition cell_text :: "cell \<Rightarrow> string \<Rightarrow> string" where
  "cell_text c dflt = (if notna c then strip (str c) else dflt)"

text \<open>
  The body of the loop of \<^verbatim>\<open>load_jobs_from_excel\<close> for the row at \<open>index\<close>. \<open>stamp\<close>
  is the text of \<^verbatim>\<open>datetime.now().timestamp()\<close> read while the row is built. The data
  frame that \<^verbatim>\<open>pd.read_excel\<close> returns has the default index, so the index that
  \<^verbatim>\<open>iterrows\<close> gives for a row is its position, from 0.
\<close>

definition load_row ::
  "(string \<Rightarrow> exn + timestamp) \<Rightarrow> string \<Rightarrow> nat \<Rightarrow> row \<Rightarrow> exn + job" where
  "load_row to_datetime stamp index r =
     try_bind (getitem r ''jobName'') (\<lambda>name.
     try_bind (getitem r ''startTime'') (\<lambda>start.
     try_bind (getitem r ''endTime'') (\<lambda>end.
     try_bind (getitem r ''dependency'') (\<lambda>dep.
     try_bind (getitem r ''description'') (\<lambda>descr.
     try_bind (getitem r ''priority'') (\<lambda>prio.
       process_job_data to_datetime
         \<lparr>job_id = str name @ ''_'' @ str_nat index @ ''_'' @ stamp,
          jobName = cell_text name [],
          startTime = cell_text start [],
          endTime = cell_text end [],
          dependency = cell_text dep [],
          description = cell_text descr [],
          priority = cell_text prio ''normal''\<rparr>))))))"

fun load_rows ::
  "(string \<Rightarrow> exn + timestamp) \<Rightarrow> (nat \<Rightarrow> string) \<Rightarrow> nat \<Rightarrow> row list \<Rightarrow> exn + job list" where
  "load_rows to_datetime stamp index [] = Inr []"
| "load_rows to_datetime stamp index (r # rs) =
     try_bind (load_row to_datetime (stamp index) index r) (\<lambda>j.
     try_bind (load_rows to_datetime stamp (Suc index) rs) (\<lambda>js.
       Inr (j # js)))"

text \<open>
  The two globals of the module. A clock reading (\<^verbatim>\<open>datetime.now()\<close>) is a naive
  timestamp together with its microseconds.
\<close>

type_synonym clock = "timestamp \<times> nat"

record store =
  jobs_data :: "job list"
  last_updated :: "clock option"

text \<open>
  \<open>file_exists\<close> is \<^verbatim>\<open>os.path.exists(EXCEL_FILE_PATH)\<close>, \<open>read_excel\<close> is the outcome of
  \<^verbatim>\<open>pd.read_excel(EXCEL_FILE_PATH)\<close> and \<open>now\<close> is the clock when \<^verbatim>\<open>last_updated\<close>
  is assigned. \<open>load_jobs_from_excel_try\<close> is the body of the \<^verbatim>\<open>try\<close>;
  \<open>load_jobs_from_excel\<close> adds the handler.
\<close>

definition load_jobs_from_excel_try ::
  "(string \<Rightarrow> exn + timestamp) \<Rightarrow> (nat \<Rightarrow> string) \<Rightarrow> bool \<Rightarrow> exn + row list \<Rightarrow> clock \<Rightarrow> store
     \<Rightarrow> exn + store" where
  "load_jobs_from_excel_try to_datetime stamp file_exists read_excel now st =
     (if \<not> file_exists then Inr (st\<lparr>jobs_data := [], last_updated := Some now\<rparr>)
      else
        try_bind read_excel (\<lambda>df.
        try_bind (load_rows to_datetime stamp 0 df) (\<lambda>jobs.
          Inr (st\<lparr>jobs_data := jobs, last_updated := Some now\<rparr>))))"

definition load_jobs_from_excel ::
  "(string \<Rightarrow> exn + timestamp) \<Rightarrow> (nat \<Rightarrow> string) \<Rightarrow> bool \<Rightarrow> exn + row list \<Rightarrow> clock \<Rightarrow> store
     \<Rightarrow> exn + store" where
  "load_jobs_from_excel to_datetime stamp file_exists read_excel now st =
     (case load_jobs_from_excel_try to_datetime stamp file_exists read_excel now st of
        Inl e \<Rightarrow> Inr (st\<lparr>jobs_data := [], last_updated := Some now\<rparr>)
      | Inr st' \<Rightarrow> Inr st')"

section \<open>Queries over the store\<close>

subsection \<open>\<^verbatim>\<open>get_jobs\<close>\<close>

text \<open>
  A query argument is \<open>None\<close> when the request does not carry it; \<open>truthy\<close> is Python's
  test of an optional string in a condition. \<open>page\<close> and \<open>page_size\<close> are the integers
  that \<^verbatim>\<open>int(request.args.get(...))\<close> has produced; a request whose arguments are not
  integers is answered by the handler's error reply before any job is looked at, and is not
  an input of \<open>get_jobs\<close>. After these conversions nothing in the handler raises on
  jobs that the loader has built. \<open>py_slice xs a b\<close> is \<^verbatim>\<open>xs[a:b]\<close>: a negative
  bound counts from the end and both bounds are clamped to the list. \<open>lastUpdated\<close>
  carries the clock reading whose ISO text the reply shows.
\<close>

definition truthy :: "string option \<Rightarrow> bool" where
  "truthy a = (case a of None \<Rightarrow> False | Some s \<Rightarrow> s \<noteq> [])"

definition slice_index :: "int \<Rightarrow> nat \<Rightarrow> nat" where
  "slice_index i n = (if i < 0 then nat (max 0 (i + int n)) else min (nat i) n)"

definition py_slice :: "'a list \<Rightarrow> int \<Rightarrow> int \<Rightarrow> 'a list" where
  "py_slice xs a b =
     (let lo = slice_index a (length xs); hi = slice_index b (length xs)
      in take (hi - lo) (drop lo xs))"

record jobs_reply =
  jobs :: "job list"
  totalCount :: nat
  lastUpdated :: "clock option"
  dataSource :: string

definition search_matches :: "string \<Rightarrow> job \<Rightarrow> bool" where
  "search_matches search_term job =
     (str_in search_term (lower (jobName job)) \<or>
      str_in search_term (lower (dependency job)) \<or>
      (description job \<noteq> [] \<and> str_in search_term (lower (description job))))"

definition get_jobs ::
  "store \<Rightarrow> string option \<Rightarrow> string option \<Rightarrow> string option \<Rightarrow> int \<Rightarrow> int \<Rightarrow> jobs_reply" where
  "get_jobs st search status_arg priority_arg page page_size =
     (let filtered_jobs = jobs_data st;
          filtered_jobs =
            (case search of
               None \<Rightarrow> filtered_jobs
             | Some s \<Rightarrow>
                 if s \<noteq> [] then filter (search_matches (lower s)) filtered_jobs
                 else filtered_jobs);
          filtered_jobs =
            (if truthy status_arg \<and> status_arg \<noteq> Some ''all''
             then filter (\<lambda>job. Some (status job) = status_arg) filtered_jobs
             else filtered_jobs);
          filtered_jobs =
            (if truthy priority_arg \<and> priority_arg \<noteq> Some ''all''
             then filter (\<lambda>job. Some (priority job) = priority_arg) filtered_jobs
             else filtered_jobs);
          total_count = length filtered_jobs;
          start_idx = (page - 1) * page_size;
          end_idx = start_idx + page_size;
          paginated_jobs = py_slice filtered_jobs start_idx end_idx
      in \<lparr>jobs = paginated_jobs, totalCount = total_count,
          lastUpdated = last_updated st, dataSource = ''excel''\<rparr>)"

text \<open>
  Following the words of the specification (section 4.4), for comparison with
  \<open>get_jobs\<close>: a job is selected when it passes the search, the status filter and the
  priority filter, each of which is switched off by an absent or empty argument, the two
  exact-match filters also by \<^verbatim>\<open>all\<close>.
\<close>

definition query_selects :: "string option \<Rightarrow> string option \<Rightarrow> string option \<Rightarrow> job \<Rightarrow> bool" where
  "query_selects search status_arg priority_arg job =
     ((case search of
         None \<Rightarrow> True
       | Some s \<Rightarrow> s = [] \<or> search_matches (lower s) job) \<and>
      (case status_arg of
         None \<Rightarrow> True
       | Some s \<Rightarrow> s = [] \<or> s = ''all'' \<or> status job = s) \<and>
      (case priority_arg of
         None \<Rightarrow> True
       | Some p \<Rightarrow> p = [] \<or> p = ''all'' \<or> priority job = p))"

subsection \<open>\<^verbatim>\<open>get_alerts\<close>\<close>

text \<open>
  \<open>clock_sub now start\<close> is \<^verbatim>\<open>(now - start).total_seconds()\<close> in microseconds, for a
  clock reading \<open>now\<close>. \<open>long_running\<close> is the loop that collects the long-running jobs;
  \<open>now k\<close> is the clock read while the job at position \<open>k\<close> is examined. The subtraction
  raises when the parsed start is aware, and the handler of \<^verbatim>\<open>get_alerts\<close> turns that
  into the error reply.
\<close>

definition clock_sub :: "clock \<Rightarrow> timestamp \<Rightarrow> exn + int" where
  "clock_sub now start =
     try_bind (ts_sub (fst now) start) (\<lambda>d. Inr (d * 1000000 + int (snd now)))"

fun long_running :: "(nat \<Rightarrow> clock) \<Rightarrow> nat \<Rightarrow> job list \<Rightarrow> exn + job list" where
  "long_running now k [] = Inr []"
| "long_running now k (job # rest) =
     (case (if status job = ''running'' then startTimeParsed job else None) of
        None \<Rightarrow> long_running now (Suc k) rest
      | Some start \<Rightarrow>
          try_bind (clock_sub (now k) start) (\<lambda>running_time.
          try_bind (long_running now (Suc k) rest) (\<lambda>found.
            Inr (if 3 * 60 * 60 * 1000000 < running_time then job # found else found))))"

record alert =
  alert_type :: string
  message :: string
  alert_jobs :: "string list"
  severity :: string

record alerts_reply =
  alerts :: "alert list"
  reply_time :: clock

definition delayed_alert :: "job list \<Rightarrow> alert" where
  "delayed_alert delayed_jobs =
     \<lparr>alert_type = ''warning'',
      message = str_nat (length delayed_jobs) @ '' job(s) are running longer than expected'',
      alert_jobs = map jobName delayed_jobs,
      severity = ''medium''\<rparr>"

definition failed_alert :: "job list \<Rightarrow> alert" where
  "failed_alert failed_jobs =
     \<lparr>alert_type = ''error'',
      message = str_nat (length failed_jobs) @ '' job(s) have failed to start'',
      alert_jobs = map jobName failed_jobs,
      severity = ''high''\<rparr>"

definition long_running_alert :: "job list \<Rightarrow> alert" where
  "long_running_alert long_running_jobs =
     \<lparr>alert_type = ''info'',
      message = str_nat (length long_running_jobs)
                  @ '' job(s) have been running for more than 3 hours'',
      alert_jobs = map jobName long_running_jobs,
      severity = ''low''\<rparr>"

definition get_alerts_try :: "(nat \<Rightarrow> clock) \<Rightarrow> store \<Rightarrow> exn + alerts_reply" where
  "get_alerts_try now st =
     (let delayed_jobs = filter (\<lambda>job. status job = ''delayed'') (jobs_data st);
          failed_jobs = filter (\<lambda>job. status job = ''failed'') (jobs_data st)
      in try_bind (long_running now 0 (jobs_data st)) (\<lambda>long_running_jobs.
           Inr \<lparr>alerts =
                  (if delayed_jobs \<noteq> [] then [delayed_alert delayed_jobs] else [])
                  @ (if failed_jobs \<noteq> [] then [failed_alert failed_jobs] else [])
                  @ (if long_running_jobs \<noteq> [] then [long_running_alert long_running_jobs]
                     else []),
                reply_time = now (length (jobs_data st))\<rparr>))"

definition get_alerts :: "(nat \<Rightarrow> clock) \<Rightarrow> store \<Rightarrow> string + alerts_reply" where
  "get_alerts now st =
     (case get_alerts_try now st of
        Inl e \<Rightarrow> Inl ''Internal server error''
      | Inr reply \<Rightarrow> Inr reply)"

text \<open>
  Following the words of the specification (section 4.6), for comparison with
  \<open>long_running\<close>: a job is long-running at a clock reading when its status is
  \<^verbatim>\<open>running\<close> and the reading is more than three hours after its parsed start.
\<close>

definition is_long_running :: "clock \<Rightarrow> job \<Rightarrow> bool" where
  "is_long_running now job =
     (status job = ''running'' \<and>
      (case startTimeParsed job of
         None \<Rightarrow> False
       | Some start \<Rightarrow>
           (case clock_sub now start of
              Inl e \<Rightarrow> False
            | Inr running_time \<Rightarrow> 3 * 60 * 60 * 1000000 < running_time)))"

section \<open>Sample inputs\<close>

text \<open>
  Concrete values at which the theorems below are evaluated: a fallback parser that rejects
  every text, a cell holding a text and an empty cell, rows and jobs built from them, a clock
  that reads noon of 2024-03-20, and small stores.
\<close>

definition no_fallback :: "string \<Rightarrow> exn + timestamp" where
  "no_fallback s = Inl ValueError"

definition text_cell :: "string \<Rightarrow> cell" where
  "text_cell s = \<lparr>notna = True, str = s\<rparr>"

definition nan_cell :: cell where
  "nan_cell = \<lparr>notna = False, str = ''nan''\<rparr>"

definition sample_row :: "string \<Rightarrow> cell \<Rightarrow> cell \<Rightarrow> cell \<Rightarrow> row" where
  "sample_row name start end prio =
     map_of [(''jobName'', text_cell name), (''startTime'', start), (''endTime'', end),
             (''dependency'', nan_cell), (''description'', nan_cell), (''priority'', prio)]"

definition sample_job :: "string \<Rightarrow> string \<Rightarrow> job" where
  "sample_job name st =
     \<lparr>job_id = name, jobName = name, startTime = [], endTime = [], dependency = [],
      description = [], priority = ''normal'', status = st, duration = None,
      startTimeParsed = None, endTimeParsed = None\<rparr>"

definition sample_clock :: clock where
  "sample_clock =
     (\<lparr>year = 2024, month = 3, day = 20, hour = 12, minute = 0, second = 0, tzinfo = None\<rparr>, 0)"

definition sample_now :: "nat \<Rightarrow> clock" where
  "sample_now k = sample_clock"

definition empty_store :: store where
  "empty_store = \<lparr>jobs_data = [], last_updated = None\<rparr>"

definition sample_time :: "int \<Rightarrow> int \<Rightarrow> int \<Rightarrow> timestamp" where
  "sample_time H M S =
     \<lparr>year = 2024, month = 3, day = 20, hour = H, minute = M, second = S, tzinfo = None\<rparr>"

definition sample_store :: store where
  "sample_store =
     \<lparr>jobs_data = [sample_job ''a'' ''completed'', sample_job ''b'' ''failed'',
                   sample_job ''c'' ''delayed''],
      last_updated = None\<rparr>"

definition sample_running :: "string \<Rightarrow> timestamp \<Rightarrow> job" where
  "sample_running name start =
     (sample_job name ''running'')\<lparr>startTimeParsed := Some start\<rparr>"

definition running_store :: store where
  "running_store =
     \<lparr>jobs_data = [sample_running ''r'' (sample_time 8 0 0)], last_updated = None\<rparr>"

definition aware_store :: store where
  "aware_store =
     \<lparr>jobs_data = [sample_running ''z'' ((sample_time 8 0 0)\<lparr>tzinfo := Some 0\<rparr>)],
      last_updated = None\<rparr>"

section \<open>Auxiliary facts\<close>

lemma strip_Nil_iff: "strip s = [] \<longleftrightarrow> (\<forall>c\<in>set s. isspace c)"
proof
  assume "strip s = []"
  then have all: "\<forall>x\<in>set (dropWhile isspace s). isspace x"
    by (simp add: strip_def)
  have "dropWhile isspace s = []"
  proof (rule ccontr)
    assume ne: "dropWhile isspace s \<noteq> []"
    then have "\<not> isspace (hd (dropWhile isspace s))" by (rule hd_dropWhile)
    moreover have "hd (dropWhile isspace s) \<in> set (dropWhile isspace s)" using ne by simp
    ultimately show False using all by blast
  qed
  then show "\<forall>c\<in>set s. isspace c" by simp
next
  assume "\<forall>c\<in>set s. isspace c"
  then show "strip s = []" by (auto simp: strip_def dest: set_dropWhileD)
qed

lemma parse_datetime_total: "\<exists>r. parse_datetime to_datetime s = Inr r"
  by (auto simp: parse_datetime_def split: sum.splits)

lemma parse_datetime_blank: "\<forall>c\<in>set s. isspace c \<Longrightarrow> parse_datetime to_datetime s = Inr None"
  by (simp add: parse_datetime_def strip_Nil_iff)

lemma try_formats_all_fail:
  "\<forall>fmt\<in>set fmts. \<exists>e. strptime s fmt = Inl e \<Longrightarrow>
     try_formats s fmts = Inr None \<or> (\<exists>e. try_formats s fmts = Inl e)"
  by (induction fmts) (auto split: sum.splits exn.splits)

lemma process_job_data_total: "\<exists>j'. process_job_data to_datetime j = Inr j'"
  using parse_datetime_total[of to_datetime "startTime j"]
    parse_datetime_total[of to_datetime "endTime j"]
  by (auto simp: process_job_data_def try_bind_def)

lemma process_job_data_fields:
  assumes "process_job_data to_datetime j = Inr j'"
  shows "parse_datetime to_datetime (startTime j) = Inr (startTimeParsed j')"
    and "parse_datetime to_datetime (endTime j) = Inr (endTimeParsed j')"
    and "status j' = determine_status (startTimeParsed j') (endTimeParsed j')"
    and "duration j' = calculate_duration (startTimeParsed j') (endTimeParsed j')"
    and "priority j' = priority j"
    and "jobName j' = jobName j"
  using assms
  by (auto simp: process_job_data_def try_bind_def raw_job.extend_def split: sum.splits)

lemma load_row_columns:
  assumes "r ''jobName'' = Some name" "r ''startTime'' = Some start" "r ''endTime'' = Some en"
    "r ''dependency'' = Some dep" "r ''description'' = Some descr" "r ''priority'' = Some prio"
  shows "load_row to_datetime stamp index r =
     process_job_data to_datetime
         \<lparr>job_id = str name @ ''_'' @ str_nat index @ ''_'' @ stamp,
          jobName = cell_text name [],
          startTime = cell_text start [],
          endTime = cell_text en [],
          dependency = cell_text dep [],
          description = cell_text descr [],
          priority = cell_text prio ''normal''\<rparr>"
  using assms by (simp add: load_row_def getitem_def try_bind_def)

lemma load_row_derived:
  assumes "load_row to_datetime stamp index r = Inr j'"
  shows "status j' = determine_status (startTimeParsed j') (endTimeParsed j')"
    and "duration j' = calculate_duration (startTimeParsed j') (endTimeParsed j')"
  using assms
  by (auto simp: load_row_def try_bind_def split: sum.splits dest: process_job_data_fields)

lemma strip_midnight: "strip ''2024-03-20T00:00:00'' = ''2024-03-20T00:00:00''"
  by code_simp

lemma strip_one: "strip ''2024-03-20T01:00:00'' = ''2024-03-20T01:00:00''"
  by code_simp

lemma parse_midnight:
  "parse_datetime to_datetime ''2024-03-20T00:00:00'' =
     Inr (Some \<lparr>year = 2024, month = 3, day = 20, hour = 0, minute = 0, second = 0,
                 tzinfo = None\<rparr>)"
  by code_simp

lemma parse_one:
  "parse_datetime to_datetime ''2024-03-20T01:00:00'' =
     Inr (Some \<lparr>year = 2024, month = 3, day = 20, hour = 1, minute = 0, second = 0,
                 tzinfo = None\<rparr>)"
  by code_simp

lemma status_one_hour:
  "determine_status
     (Some \<lparr>year = 2024, month = 3, day = 20, hour = 0, minute = 0, second = 0, tzinfo = None\<rparr>)
     (Some \<lparr>year = 2024, month = 3, day = 20, hour = 1, minute = 0, second = 0, tzinfo = None\<rparr>)
   = ''completed''"
  by code_simp

lemma duration_one_hour:
  "calculate_duration
     (Some \<lparr>year = 2024, month = 3, day = 20, hour = 0, minute = 0, second = 0, tzinfo = None\<rparr>)
     (Some \<lparr>year = 2024, month = 3, day = 20, hour = 1, minute = 0, second = 0, tzinfo = None\<rparr>)
   = Some ''1h 0m''"
  by code_simp

lemma sample_row_built:
  assumes "parse_datetime to_datetime (strip a) = Inr (Some s)"
    and "parse_datetime to_datetime (strip b) = Inr (Some e)"
  shows "\<exists>j. load_row to_datetime stamp index (sample_row n (text_cell a) (text_cell b) p) = Inr j
           \<and> startTimeParsed j = Some s \<and> endTimeParsed j = Some e"
proof -
  let ?r = "sample_row n (text_cell a) (text_cell b) p"
  let ?raw = "\<lparr>job_id = str (text_cell n) @ ''_'' @ str_nat index @ ''_'' @ stamp,
          jobName = cell_text (text_cell n) [],
          startTime = cell_text (text_cell a) [],
          endTime = cell_text (text_cell b) [],
          dependency = cell_text nan_cell [],
          description = cell_text nan_cell [],
          priority = cell_text p ''normal''\<rparr>"
  have row: "load_row to_datetime stamp index ?r = process_job_data to_datetime ?raw"
    by (rule load_row_columns) (simp_all add: sample_row_def)
  obtain j where j: "process_job_data to_datetime ?raw = Inr j"
    using process_job_data_total by blast
  have "startTimeParsed j = Some s"
    using process_job_data_fields(1)[OF j] assms(1) by (simp add: cell_text_def text_cell_def)
  moreover have "endTimeParsed j = Some e"
    using process_job_data_fields(2)[OF j] assms(2) by (simp add: cell_text_def text_cell_def)
  ultimately show ?thesis using row j by simp
qed

lemma parse_sample_000000:
  "parse_datetime to_datetime (strip ''2024-03-20T00:00:00'') = Inr (Some (sample_time 0 0 0))"
  by code_simp

lemma parse_sample_005959:
  "parse_datetime to_datetime (strip ''2024-03-20T00:59:59'') = Inr (Some (sample_time 0 59 59))"
  by code_simp

lemma parse_sample_010000:
  "parse_datetime to_datetime (strip ''2024-03-20T01:00:00'') = Inr (Some (sample_time 1 0 0))"
  by code_simp

lemma parse_sample_020530:
  "parse_datetime to_datetime (strip ''2024-03-20T02:05:30'') = Inr (Some (sample_time 2 5 30))"
  by code_simp

lemma parse_sample_020000:
  "parse_datetime to_datetime (strip ''2024-03-20 02:00:00'') = Inr (Some (sample_time 2 0 0))"
  by code_simp

lemma parse_sample_020001:
  "parse_datetime to_datetime (strip ''2024-03-20 02:00:01'') = Inr (Some (sample_time 2 0 1))"
  by code_simp

lemma ts_sub_sample:
  "ts_sub (sample_time H M S) (sample_time H' M' S') = Inr ((H - H') * 3600 + (M - M') * 60 + (S - S'))"
  by (simp add: ts_sub_def sample_time_def seconds_of_def algebra_simps)

section \<open>The example row\<close>

text \<open>
  Claim C1, as amended. For a row with jobName \<^verbatim>\<open>Daily_ETL\<close>, startTime
  \<^verbatim>\<open>2024-03-20T00:00:00\<close>, endTime \<^verbatim>\<open>2024-03-20T01:00:00\<close> and priority
  \<^verbatim>\<open>high\<close>, the built job has status \<^verbatim>\<open>completed\<close> and duration \<^verbatim>\<open>1h 0m\<close>: sixty
  minutes make one hour, so \<^verbatim>\<open>calculate_duration\<close> takes the branch with hours. This
  holds whatever the fallback parser, the row index and the other two cells are.
\<close>

theorem daily_etl_row:
  assumes "r ''jobName'' = Some name" "notna name" "str name = ''Daily_ETL''"
    and "r ''startTime'' = Some start" "notna start" "str start = ''2024-03-20T00:00:00''"
    and "r ''endTime'' = Some en" "notna en" "str en = ''2024-03-20T01:00:00''"
    and "r ''priority'' = Some prio" "notna prio" "str prio = ''high''"
    and "r ''dependency'' = Some dep" "r ''description'' = Some descr"
  shows "\<exists>j. load_row to_datetime stamp index r = Inr j \<and>
           status j = ''completed'' \<and> duration j = Some ''1h 0m''"
proof -
  let ?raw = "\<lparr>job_id = str name @ ''_'' @ str_nat index @ ''_'' @ stamp,
          jobName = cell_text name [],
          startTime = cell_text start [],
          endTime = cell_text en [],
          dependency = cell_text dep [],
          description = cell_text descr [],
          priority = cell_text prio ''normal''\<rparr>"
  have row: "load_row to_datetime stamp index r = process_job_data to_datetime ?raw"
    using assms by (intro load_row_columns) simp_all
  obtain j where j: "process_job_data to_datetime ?raw = Inr j"
    using process_job_data_total by blast
  have st: "startTime ?raw = ''2024-03-20T00:00:00''"
    using assms by (simp add: cell_text_def strip_midnight)
  have en: "endTime ?raw = ''2024-03-20T01:00:00''"
    using assms by (simp add: cell_text_def strip_one)
  have ps: "startTimeParsed j = Some \<lparr>year = 2024, month = 3, day = 20, hour = 0, minute = 0, second = 0, tzinfo = None\<rparr>"
    using process_job_data_fields(1)[OF j] unfolding st parse_midnight by simp
  have pe: "endTimeParsed j = Some \<lparr>year = 2024, month = 3, day = 20, hour = 1, minute = 0, second = 0, tzinfo = None\<rparr>"
    using process_job_data_fields(2)[OF j] unfolding en parse_one by simp
  have "status j = ''completed''"
    using process_job_data_fields(3)[OF j] unfolding ps pe status_one_hour .
  moreover have "duration j = Some ''1h 0m''"
    using process_job_data_fields(4)[OF j] unfolding ps pe duration_one_hour .
  ultimately show ?thesis using row j by simp
qed

text \<open>The theorem at the sample row, whose cells satisfy every hypothesis.\<close>

theorem daily_etl_row_witness:
  "\<exists>j. load_row no_fallback ''0.0'' 0
          (sample_row ''Daily_ETL'' (text_cell ''2024-03-20T00:00:00'')
             (text_cell ''2024-03-20T01:00:00'') (text_cell ''high'')) = Inr j \<and>
        status j = ''completed'' \<and> duration j = Some ''1h 0m''"
  by (rule daily_etl_row[where name = "text_cell ''Daily_ETL''"
        and start = "text_cell ''2024-03-20T00:00:00''"
        and en = "text_cell ''2024-03-20T01:00:00''"
        and prio = "text_cell ''high''" and dep = nan_cell and descr = nan_cell])
     (simp_all add: sample_row_def text_cell_def)

text \<open>
  Claim C1 as the specification words it asks for the duration \<^verbatim>\<open>60m\<close>; at the sample
  row the loader returns \<^verbatim>\<open>1h 0m\<close> instead.
\<close>

theorem daily_etl_row_not_60m:
  "map_sum id duration
     (load_row no_fallback ''0.0'' 0
        (sample_row ''Daily_ETL'' (text_cell ''2024-03-20T00:00:00'')
           (text_cell ''2024-03-20T01:00:00'') (text_cell ''high''))) = Inr (Some ''1h 0m'')
   \<and> map_sum id duration
     (load_row no_fallback ''0.0'' 0
        (sample_row ''Daily_ETL'' (text_cell ''2024-03-20T00:00:00'')
           (text_cell ''2024-03-20T01:00:00'') (text_cell ''high''))) \<noteq> Inr (Some ''60m'')"
proof -
  have "map_sum id duration
     (load_row no_fallback ''0.0'' 0
        (sample_row ''Daily_ETL'' (text_cell ''2024-03-20T00:00:00'')
           (text_cell ''2024-03-20T01:00:00'') (text_cell ''high''))) = Inr (Some ''1h 0m'')"
    by code_simp
  then show ?thesis by simp
qed

section \<open>Duration and status of a built job\<close>

lemma hours_pos: "0 < (m::int) div 60 \<longleftrightarrow> 60 \<le> m"
  by presburger

lemma calculate_duration_nonneg:
  assumes "ts_sub e s = Inr d" "0 \<le> d"
  shows "calculate_duration (Some s) (Some e) =
     Some (if 60 \<le> d div 60
           then str_int (d div 60 div 60) @ ''h '' @ str_int (d div 60 mod 60) @ ''m''
           else str_int (d div 60) @ ''m'')"
  using assms by (simp add: calculate_duration_def Let_def hours_pos)

lemma str_int_59: "str_int 59 = ''59''"
  by code_simp

lemma str_int_0: "str_int 0 = ''0''"
  by code_simp

lemma str_int_1: "str_int 1 = ''1''"
  by code_simp

lemma str_int_2: "str_int 2 = ''2''"
  by code_simp

lemma str_int_5: "str_int 5 = ''5''"
  by code_simp

text \<open>
  Claim C2. For a job built from a row whose two timestamps are present and whose end is
  not before its start, let \<open>d\<close> be the difference in seconds and \<open>m = d div 60\<close> the
  whole minutes, truncated. When \<open>m\<close> is at least 60 the duration is the text of
  \<open>m div 60\<close>, \<^verbatim>\<open>h\<close>, a blank, the text of \<open>m mod 60\<close> and \<^verbatim>\<open>m\<close>; otherwise it is
  the text of \<open>m\<close> and \<^verbatim>\<open>m\<close>. So 59 minutes give \<^verbatim>\<open>59m\<close>, 60 minutes give
  \<^verbatim>\<open>1h 0m\<close> and 125 minutes give \<^verbatim>\<open>2h 5m\<close>.
\<close>

theorem duration_format:
  assumes "load_row to_datetime stamp index r = Inr j"
    and "startTimeParsed j = Some s" "endTimeParsed j = Some e"
    and "ts_sub e s = Inr d" "0 \<le> d"
  shows "duration j =
           Some (if 60 \<le> d div 60
                 then str_int (d div 60 div 60) @ ''h '' @ str_int (d div 60 mod 60) @ ''m''
                 else str_int (d div 60) @ ''m'')
         \<and> (d div 60 = 59 \<longrightarrow> duration j = Some ''59m'')
         \<and> (d div 60 = 60 \<longrightarrow> duration j = Some ''1h 0m'')
         \<and> (d div 60 = 125 \<longrightarrow> duration j = Some ''2h 5m'')"
proof -
  have gen: "duration j =
           Some (if 60 \<le> d div 60
                 then str_int (d div 60 div 60) @ ''h '' @ str_int (d div 60 mod 60) @ ''m''
                 else str_int (d div 60) @ ''m'')"
    using load_row_derived(2)[OF assms(1)] assms(2,3) calculate_duration_nonneg[OF assms(4,5)]
    by simp
  have a: "duration j = Some ''59m''" if "d div 60 = 59"
    using gen unfolding that by (simp add: str_int_59)
  have b: "duration j = Some ''1h 0m''" if "d div 60 = 60"
    using gen unfolding that by (simp add: str_int_1 str_int_0)
  have c: "duration j = Some ''2h 5m''" if "d div 60 = 125"
    using gen unfolding that by (simp add: str_int_2 str_int_5)
  show ?thesis
  proof (intro conjI impI)
    show "duration j =
           Some (if 60 \<le> d div 60
                 then str_int (d div 60 div 60) @ ''h '' @ str_int (d div 60 mod 60) @ ''m''
                 else str_int (d div 60) @ ''m'')" by (rule gen)
  qed (rule a b c, assumption)+
qed

text \<open>
  Claim C2 at three rows that start at midnight and end 59 minutes 59 seconds, one hour, and
  2 hours 5 minutes 30 seconds later.
\<close>

theorem duration_format_witness:
  "map_sum id duration
     (load_row no_fallback ''0.0'' 0
        (sample_row ''X'' (text_cell ''2024-03-20T00:00:00'') (text_cell ''2024-03-20T00:59:59'')
           nan_cell)) = Inr (Some ''59m'')
   \<and> map_sum id duration
     (load_row no_fallback ''0.0'' 0
        (sample_row ''X'' (text_cell ''2024-03-20T00:00:00'') (text_cell ''2024-03-20T01:00:00'')
           nan_cell)) = Inr (Some ''1h 0m'')
   \<and> map_sum id duration
     (load_row no_fallback ''0.0'' 0
        (sample_row ''X'' (text_cell ''2024-03-20T00:00:00'') (text_cell ''2024-03-20T02:05:30'')
           nan_cell)) = Inr (Some ''2h 5m'')"
proof (intro conjI)
  obtain j where j: "load_row no_fallback ''0.0'' 0
        (sample_row ''X'' (text_cell ''2024-03-20T00:00:00'') (text_cell ''2024-03-20T00:59:59'')
           nan_cell) = Inr j"
    and s: "startTimeParsed j = Some (sample_time 0 0 0)"
    and e: "endTimeParsed j = Some (sample_time 0 59 59)"
    using sample_row_built[OF parse_sample_000000 parse_sample_005959] by blast
  have d: "ts_sub (sample_time 0 59 59) (sample_time 0 0 0) = Inr 3599"
    by (simp add: ts_sub_sample)
  have "duration j = Some ''59m''"
    using duration_format[OF j s e d, THEN conjunct2, THEN conjunct1] by simp
  then show "map_sum id duration
     (load_row no_fallback ''0.0'' 0
        (sample_row ''X'' (text_cell ''2024-03-20T00:00:00'') (text_cell ''2024-03-20T00:59:59'')
           nan_cell)) = Inr (Some ''59m'')"
    by (simp add: j)
next
  obtain j where j: "load_row no_fallback ''0.0'' 0
        (sample_row ''X'' (text_cell ''2024-03-20T00:00:00'') (text_cell ''2024-03-20T01:00:00'')
           nan_cell) = Inr j"
    and s: "startTimeParsed j = Some (sample_time 0 0 0)"
    and e: "endTimeParsed j = Some (sample_time 1 0 0)"
    using sample_row_built[OF parse_sample_000000 parse_sample_010000] by blast
  have d: "ts_sub (sample_time 1 0 0) (sample_time 0 0 0) = Inr 3600"
    by (simp add: ts_sub_sample)
  have "duration j = Some ''1h 0m''"
    using duration_format[OF j s e d, THEN conjunct2, THEN conjunct2, THEN conjunct1] by simp
  then show "map_sum id duration
     (load_row no_fallback ''0.0'' 0
        (sample_row ''X'' (text_cell ''2024-03-20T00:00:00'') (text_cell ''2024-03-20T01:00:00'')
           nan_cell)) = Inr (Some ''1h 0m'')"
    by (simp add: j)
next
  obtain j where j: "load_row no_fallback ''0.0'' 0
        (sample_row ''X'' (text_cell ''2024-03-20T00:00:00'') (text_cell ''2024-03-20T02:05:30'')
           nan_cell) = Inr j"
    and s: "startTimeParsed j = Some (sample_time 0 0 0)"
    and e: "endTimeParsed j = Some (sample_time 2 5 30)"
    using sample_row_built[OF parse_sample_000000 parse_sample_020530] by blast
  have d: "ts_sub (sample_time 2 5 30) (sample_time 0 0 0) = Inr 7530"
    by (simp add: ts_sub_sample)
  have "duration j = Some ''2h 5m''"
    using duration_format[OF j s e d, THEN conjunct2, THEN conjunct2, THEN conjunct2] by simp
  then show "map_sum id duration
     (load_row no_fallback ''0.0'' 0
        (sample_row ''X'' (text_cell ''2024-03-20T00:00:00'') (text_cell ''2024-03-20T02:05:30'')
           nan_cell)) = Inr (Some ''2h 5m'')"
    by (simp add: j)
qed

lemma determine_status_both:
  "determine_status (Some s) (Some e) =
     (case ts_sub e s of
        Inl ex \<Rightarrow> ''failed''
      | Inr d \<Rightarrow> if 2 * 60 * 60 < d then ''delayed'' else ''completed'')"
  by (simp add: determine_status_def)

text \<open>
  Claim C3. For a job built from a row whose two timestamps are present, the status is
  \<^verbatim>\<open>delayed\<close> exactly when the end is more than two hours after the start, and
  \<^verbatim>\<open>completed\<close> when the difference is at most two hours; a difference of exactly
  7200 seconds gives \<^verbatim>\<open>completed\<close> and 7201 seconds give \<^verbatim>\<open>delayed\<close>. (When the
  subtraction raises, because one timestamp is naive and the other aware, there is no
  difference and the status is neither of the two.)
\<close>

theorem status_threshold:
  assumes "load_row to_datetime stamp index r = Inr j"
    and "startTimeParsed j = Some s" "endTimeParsed j = Some e"
  shows "(status j = ''delayed'' \<longleftrightarrow> (\<exists>d. ts_sub e s = Inr d \<and> 2 * 60 * 60 < d))
       \<and> (\<forall>d. ts_sub e s = Inr d \<and> d \<le> 2 * 60 * 60 \<longrightarrow> status j = ''completed'')
       \<and> (ts_sub e s = Inr (2 * 60 * 60) \<longrightarrow> status j = ''completed'')
       \<and> (ts_sub e s = Inr (2 * 60 * 60 + 1) \<longrightarrow> status j = ''delayed'')"
proof -
  have st: "status j = determine_status (Some s) (Some e)"
    using load_row_derived(1)[OF assms(1)] assms(2,3) by simp
  show ?thesis
  proof (cases "ts_sub e s")
    case (Inl ex)
    then show ?thesis by (simp add: st determine_status_both)
  next
    case (Inr d)
    then show ?thesis by (simp add: st determine_status_both)
  qed
qed

text \<open>
  Claim C3 at two rows that start at midnight and end at 02:00:00 and at 02:00:01.
\<close>

theorem status_threshold_witness:
  "map_sum id status
     (load_row no_fallback ''0.0'' 0
        (sample_row ''X'' (text_cell ''2024-03-20T00:00:00'') (text_cell ''2024-03-20 02:00:00'')
           nan_cell)) = Inr ''completed''
   \<and> map_sum id status
     (load_row no_fallback ''0.0'' 0
        (sample_row ''X'' (text_cell ''2024-03-20T00:00:00'') (text_cell ''2024-03-20 02:00:01'')
           nan_cell)) = Inr ''delayed''"
proof (intro conjI)
  obtain j where j: "load_row no_fallback ''0.0'' 0
        (sample_row ''X'' (text_cell ''2024-03-20T00:00:00'') (text_cell ''2024-03-20 02:00:00'')
           nan_cell) = Inr j"
    and s: "startTimeParsed j = Some (sample_time 0 0 0)"
    and e: "endTimeParsed j = Some (sample_time 2 0 0)"
    using sample_row_built[OF parse_sample_000000 parse_sample_020000] by blast
  have d: "ts_sub (sample_time 2 0 0) (sample_time 0 0 0) = Inr (2 * 60 * 60)"
    by (simp add: ts_sub_sample)
  have "status j = ''completed''"
    using status_threshold[OF j s e, THEN conjunct2, THEN conjunct2, THEN conjunct1] d by simp
  then show "map_sum id status
     (load_row no_fallback ''0.0'' 0
        (sample_row ''X'' (text_cell ''2024-03-20T00:00:00'') (text_cell ''2024-03-20 02:00:00'')
           nan_cell)) = Inr ''completed''"
    by (simp add: j)
next
  obtain j where j: "load_row no_fallback ''0.0'' 0
        (sample_row ''X'' (text_cell ''2024-03-20T00:00:00'') (text_cell ''2024-03-20 02:00:01'')
           nan_cell) = Inr j"
    and s: "startTimeParsed j = Some (sample_time 0 0 0)"
    and e: "endTimeParsed j = Some (sample_time 2 0 1)"
    using sample_row_built[OF parse_sample_000000 parse_sample_020001] by blast
  have d: "ts_sub (sample_time 2 0 1) (sample_time 0 0 0) = Inr (2 * 60 * 60 + 1)"
    by (simp add: ts_sub_sample)
  have "status j = ''delayed''"
    using status_threshold[OF j s e, THEN conjunct2, THEN conjunct2, THEN conjunct2] d by simp
  then show "map_sum id status
     (load_row no_fallback ''0.0'' 0
        (sample_row ''X'' (text_cell ''2024-03-20T00:00:00'') (text_cell ''2024-03-20 02:00:01'')
           nan_cell)) = Inr ''delayed''"
    by (simp add: j)
qed

section \<open>Rows with blank cells\<close>

lemma cell_text_blank:
  "\<not> notna c \<or> (\<forall>ch\<in>set (str c). isspace ch) \<Longrightarrow> cell_text c [] = []"
  by (auto simp: cell_text_def strip_Nil_iff)

text \<open>
  Claim C4. For every row whose startTime and endTime cells are blank (not a value, or a
  text that is empty or all white space), the loader builds a job with status
  \<^verbatim>\<open>failed\<close> and no duration.
\<close>

theorem empty_times_failed:
  assumes "r ''jobName'' = Some name" "r ''startTime'' = Some start" "r ''endTime'' = Some en"
    and "r ''dependency'' = Some dep" "r ''description'' = Some descr"
    and "r ''priority'' = Some prio"
    and "\<not> notna start \<or> (\<forall>ch\<in>set (str start). isspace ch)"
    and "\<not> notna en \<or> (\<forall>ch\<in>set (str en). isspace ch)"
  shows "\<exists>j. load_row to_datetime stamp index r = Inr j \<and>
           status j = ''failed'' \<and> duration j = None"
proof -
  let ?raw = "\<lparr>job_id = str name @ ''_'' @ str_nat index @ ''_'' @ stamp,
          jobName = cell_text name [],
          startTime = cell_text start [],
          endTime = cell_text en [],
          dependency = cell_text dep [],
          description = cell_text descr [],
          priority = cell_text prio ''normal''\<rparr>"
  have row: "load_row to_datetime stamp index r = process_job_data to_datetime ?raw"
    using assms(1-6) by (rule load_row_columns)
  obtain j where j: "process_job_data to_datetime ?raw = Inr j"
    using process_job_data_total by blast
  have "parse_datetime to_datetime (startTime ?raw) = Inr None"
    using cell_text_blank[OF assms(7)] by (simp add: parse_datetime_def)
  then have ps: "startTimeParsed j = None"
    using process_job_data_fields(1)[OF j] by simp
  have "status j = ''failed''"
    using process_job_data_fields(3)[OF j] by (simp add: ps determine_status_def)
  moreover have "duration j = None"
    using process_job_data_fields(4)[OF j] by (simp add: ps calculate_duration_def)
  ultimately show ?thesis using row j by simp
qed

text \<open>
  Claim C4 at the row with jobName \<^verbatim>\<open>X\<close>, an empty startTime and an endTime of two
  blanks.
\<close>

theorem empty_times_failed_witness:
  "\<exists>j. load_row no_fallback ''0.0'' 0 (sample_row ''X'' (text_cell []) (text_cell ''  '') nan_cell)
          = Inr j \<and> status j = ''failed'' \<and> duration j = None"
proof (rule empty_times_failed[where name = "text_cell ''X''" and start = "text_cell []"
        and en = "text_cell ''  ''" and prio = nan_cell and dep = nan_cell and descr = nan_cell])
  show "\<not> notna (text_cell ''  '') \<or> (\<forall>ch\<in>set (str (text_cell ''  '')). isspace ch)"
    by (simp add: text_cell_def isspace_def)
qed (simp_all add: sample_row_def text_cell_def)

text \<open>
  Claim C5, as amended. For every row whose priority cell is not a value
  (\<^verbatim>\<open>pd.notna\<close> is false), the built job has priority \<^verbatim>\<open>normal\<close>; a cell that holds a
  value gives the text of that value, trimmed, whatever it is.
\<close>

theorem priority_default:
  assumes "r ''jobName'' = Some name" "r ''startTime'' = Some start" "r ''endTime'' = Some en"
    and "r ''dependency'' = Some dep" "r ''description'' = Some descr"
    and "r ''priority'' = Some prio"
  shows "\<exists>j. load_row to_datetime stamp index r = Inr j \<and>
           (\<not> notna prio \<longrightarrow> priority j = ''normal'') \<and>
           (notna prio \<longrightarrow> priority j = strip (str prio))"
proof -
  let ?raw = "\<lparr>job_id = str name @ ''_'' @ str_nat index @ ''_'' @ stamp,
          jobName = cell_text name [],
          startTime = cell_text start [],
          endTime = cell_text en [],
          dependency = cell_text dep [],
          description = cell_text descr [],
          priority = cell_text prio ''normal''\<rparr>"
  have row: "load_row to_datetime stamp index r = process_job_data to_datetime ?raw"
    using assms by (rule load_row_columns)
  obtain j where j: "process_job_data to_datetime ?raw = Inr j"
    using process_job_data_total by blast
  have "priority j = cell_text prio ''normal''"
    using process_job_data_fields(5)[OF j] by simp
  then show ?thesis using row j by (simp add: cell_text_def)
qed

lemma strip_sample_low: "strip '' low '' = ''low''"
  by code_simp

text \<open>
  Claim C5, as amended, at a row whose priority cell is not a value and at a row whose
  priority cell holds \<^verbatim>\<open>low\<close> between two blanks.
\<close>

theorem priority_default_witness:
  "(\<exists>j. load_row no_fallback ''0.0'' 0 (sample_row ''X'' nan_cell nan_cell nan_cell) = Inr j \<and>
        priority j = ''normal'')
   \<and> (\<exists>j. load_row no_fallback ''0.0'' 0 (sample_row ''X'' nan_cell nan_cell (text_cell '' low ''))
          = Inr j \<and> priority j = ''low'')"
proof
  have "\<exists>j. load_row no_fallback ''0.0'' 0 (sample_row ''X'' nan_cell nan_cell nan_cell) = Inr j \<and>
           (\<not> notna nan_cell \<longrightarrow> priority j = ''normal'') \<and>
           (notna nan_cell \<longrightarrow> priority j = strip (str nan_cell))"
    by (rule priority_default[where name = "text_cell ''X''" and start = nan_cell
          and en = nan_cell and dep = nan_cell and descr = nan_cell])
       (simp_all add: sample_row_def)
  then show "\<exists>j. load_row no_fallback ''0.0'' 0 (sample_row ''X'' nan_cell nan_cell nan_cell)
       = Inr j \<and> priority j = ''normal''"
    by (simp add: nan_cell_def)
next
  have "\<exists>j. load_row no_fallback ''0.0'' 0
               (sample_row ''X'' nan_cell nan_cell (text_cell '' low '')) = Inr j \<and>
           (\<not> notna (text_cell '' low '') \<longrightarrow> priority j = ''normal'') \<and>
           (notna (text_cell '' low '') \<longrightarrow> priority j = strip (str (text_cell '' low '')))"
    by (rule priority_default[where name = "text_cell ''X''" and start = nan_cell
          and en = nan_cell and dep = nan_cell and descr = nan_cell])
       (simp_all add: sample_row_def)
  then show "\<exists>j. load_row no_fallback ''0.0'' 0
       (sample_row ''X'' nan_cell nan_cell (text_cell '' low '')) = Inr j \<and> priority j = ''low''"
    by (simp add: text_cell_def strip_sample_low)
qed

text \<open>
  Claim C5 as the specification words it also covers a priority cell that holds white
  space only; for the cell holding two blanks the built job has the empty priority, not
  \<^verbatim>\<open>normal\<close>.
\<close>

theorem priority_blank_text:
  "map_sum id priority
     (load_row no_fallback ''0.0'' 0 (sample_row ''X'' nan_cell nan_cell (text_cell ''  '')))
     = Inr []
   \<and> map_sum id priority
     (load_row no_fallback ''0.0'' 0 (sample_row ''X'' nan_cell nan_cell (text_cell ''  '')))
     \<noteq> Inr ''normal''"
proof -
  have "map_sum id priority
     (load_row no_fallback ''0.0'' 0 (sample_row ''X'' nan_cell nan_cell (text_cell ''  '')))
     = Inr []"
    by code_simp
  then show ?thesis by simp
qed

section \<open>Parsing never fails outward\<close>

text \<open>
  Claim C6. For every text and every fallback parser, \<^verbatim>\<open>parse_datetime\<close> returns a
  value and never raises; the value is \<open>None\<close> when the text is empty or all white space,
  and also when each of the five formats is rejected and the fallback parser raises.
\<close>

theorem parse_datetime_absent:
  "(\<exists>r. parse_datetime to_datetime s = Inr r)
   \<and> ((\<forall>c\<in>set s. isspace c) \<longrightarrow> parse_datetime to_datetime s = Inr None)
   \<and> ((\<forall>fmt\<in>set formats. \<exists>e. strptime (strip s) fmt = Inl e)
        \<and> (\<exists>e. to_datetime (strip s) = Inl e)
      \<longrightarrow> parse_datetime to_datetime s = Inr None)"
proof (intro conjI impI)
  show "\<exists>r. parse_datetime to_datetime s = Inr r" by (rule parse_datetime_total)
next
  assume "\<forall>c\<in>set s. isspace c"
  then show "parse_datetime to_datetime s = Inr None" by (rule parse_datetime_blank)
next
  assume a: "(\<forall>fmt\<in>set formats. \<exists>e. strptime (strip s) fmt = Inl e)
        \<and> (\<exists>e. to_datetime (strip s) = Inl e)"
  then have "try_formats (strip s) formats = Inr None
       \<or> (\<exists>e. try_formats (strip s) formats = Inl e)"
    by (intro try_formats_all_fail) simp
  then have "\<exists>e. parse_datetime_try to_datetime s = Inl e"
    using a by (auto simp: parse_datetime_try_def)
  then show "parse_datetime to_datetime s = Inr None"
    by (auto simp: parse_datetime_def)
qed

lemma formats_reject_sample:
  "list_all (\<lambda>fmt. strptime (strip ''2024-02-30'') fmt = Inl ValueError) formats"
  by code_simp

text \<open>
  Claim C6 at a text of two blanks and at \<^verbatim>\<open>2024-02-30\<close>, which no format accepts
  (the third one matches, but February has no 30th day), with a fallback that raises.
\<close>

theorem parse_datetime_absent_witness:
  "parse_datetime no_fallback ''  '' = Inr None \<and> parse_datetime no_fallback ''2024-02-30'' = Inr None"
proof
  have "\<forall>c\<in>set ''  ''. isspace c" by (simp add: isspace_def)
  then show "parse_datetime no_fallback ''  '' = Inr None"
    using parse_datetime_absent[of no_fallback "''  ''"] by blast
next
  have "\<forall>fmt\<in>set formats. \<exists>e. strptime (strip ''2024-02-30'') fmt = Inl e"
    using formats_reject_sample by (auto simp: list_all_iff)
  moreover have "\<exists>e. no_fallback (strip ''2024-02-30'') = Inl e"
    by (simp add: no_fallback_def)
  ultimately show "parse_datetime no_fallback ''2024-02-30'' = Inr None"
    using parse_datetime_absent[of no_fallback "''2024-02-30''"] by blast
qed

section \<open>Reloading the store\<close>

text \<open>
  Claim C7. \<^verbatim>\<open>load_jobs_from_excel\<close> returns a store for every condition of the
  source and never raises. When the file is missing, or reading it raises, the store it
  returns has no jobs and \<^verbatim>\<open>last_updated\<close> is the current clock reading.
\<close>

theorem reload_degrades:
  "(\<exists>st'. load_jobs_from_excel to_datetime stamp file_exists read_excel now st = Inr st')
   \<and> (\<not> file_exists \<or> (\<exists>e. read_excel = Inl e) \<longrightarrow>
        load_jobs_from_excel to_datetime stamp file_exists read_excel now st
          = Inr (st\<lparr>jobs_data := [], last_updated := Some now\<rparr>))"
  by (auto simp: load_jobs_from_excel_def load_jobs_from_excel_try_def try_bind_def
           split: sum.splits)

text \<open>
  Claim C7 for a missing file and for a file whose reading raises.
\<close>

theorem reload_degrades_witness:
  "load_jobs_from_excel no_fallback str_nat False (Inr []) sample_clock empty_store
     = Inr \<lparr>jobs_data = [], last_updated = Some sample_clock\<rparr>
   \<and> load_jobs_from_excel no_fallback str_nat True (Inl (OtherError ''unreadable'')) sample_clock
       empty_store
     = Inr \<lparr>jobs_data = [], last_updated = Some sample_clock\<rparr>"
  using reload_degrades[of no_fallback str_nat False "Inr []" sample_clock empty_store]
    reload_degrades[of no_fallback str_nat True "Inl (OtherError ''unreadable'')" sample_clock
      empty_store]
  by (simp add: empty_store_def)

section \<open>Filtering and pagination\<close>

lemma py_slice_past_end: "int (length xs) \<le> a \<Longrightarrow> py_slice xs a b = []"
  by (simp add: py_slice_def slice_index_def Let_def)

lemma get_jobs_selects:
  "get_jobs st search status_arg priority_arg page page_size =
     \<lparr>jobs = py_slice (filter (query_selects search status_arg priority_arg) (jobs_data st))
               ((page - 1) * page_size) ((page - 1) * page_size + page_size),
      totalCount = length (filter (query_selects search status_arg priority_arg) (jobs_data st)),
      lastUpdated = last_updated st, dataSource = ''excel''\<rparr>"
proof -
  define A where "A = (\<lambda>job :: job. case search of None \<Rightarrow> True
                         | Some s \<Rightarrow> s = [] \<or> search_matches (lower s) job)"
  define B where "B = (\<lambda>job :: job. case status_arg of None \<Rightarrow> True
                         | Some s \<Rightarrow> s = [] \<or> s = ''all'' \<or> status job = s)"
  define C where "C = (\<lambda>job :: job. case priority_arg of None \<Rightarrow> True
                         | Some p \<Rightarrow> p = [] \<or> p = ''all'' \<or> priority job = p)"
  have s1: "(case search of
           None \<Rightarrow> xs
         | Some s \<Rightarrow> if s \<noteq> [] then filter (search_matches (lower s)) xs else xs)
        = filter A xs" for xs
    by (simp add: A_def split: option.split)
  have s2: "(if truthy status_arg \<and> status_arg \<noteq> Some ''all''
             then filter (\<lambda>job. Some (status job) = status_arg) xs else xs)
        = filter B xs" for xs
    by (cases status_arg) (auto simp: truthy_def B_def intro: filter_cong)
  have s3: "(if truthy priority_arg \<and> priority_arg \<noteq> Some ''all''
             then filter (\<lambda>job. Some (priority job) = priority_arg) xs else xs)
        = filter C xs" for xs
    by (cases priority_arg) (auto simp: truthy_def C_def intro: filter_cong)
  have q: "query_selects search status_arg priority_arg = (\<lambda>job. A job \<and> B job \<and> C job)"
    by (simp add: fun_eq_iff query_selects_def A_def B_def C_def)
  show ?thesis
    unfolding get_jobs_def Let_def s1 s2 s3 q by (simp add: conj_assoc)
qed

text \<open>
  Claim C8. For every store, every combination of filters, every page and every page size,
  \<^verbatim>\<open>totalCount\<close> is the number of jobs that the filters select, the page is cut from
  that selection afterwards, and \<^verbatim>\<open>totalCount\<close> does not depend on the page (pages 1
  and 2 in particular give the same count). A page that starts at or past the end of the
  selection is the empty list.
\<close>

theorem total_count_before_pagination:
  "totalCount (get_jobs st search status_arg priority_arg page page_size)
     = length (filter (query_selects search status_arg priority_arg) (jobs_data st))
   \<and> jobs (get_jobs st search status_arg priority_arg page page_size)
     = py_slice (filter (query_selects search status_arg priority_arg) (jobs_data st))
         ((page - 1) * page_size) ((page - 1) * page_size + page_size)
   \<and> totalCount (get_jobs st search status_arg priority_arg 1 page_size)
     = totalCount (get_jobs st search status_arg priority_arg 2 page_size)
   \<and> totalCount (get_jobs st search status_arg priority_arg page page_size)
     = totalCount (get_jobs st search status_arg priority_arg page' page_size)
   \<and> (int (totalCount (get_jobs st search status_arg priority_arg page page_size))
         \<le> (page - 1) * page_size
      \<longrightarrow> jobs (get_jobs st search status_arg priority_arg page page_size) = [])"
  by (simp add: get_jobs_selects py_slice_past_end)

lemma sample_total_count:
  "totalCount (get_jobs sample_store None (Some ''completed'') None 2 5) = 1"
  by code_simp

text \<open>
  Claim C8 at the sample store: one job is selected, and page 2 with five jobs per page
  is empty.
\<close>

theorem total_count_before_pagination_witness:
  "int (totalCount (get_jobs sample_store None (Some ''completed'') None 2 5)) \<le> (2 - 1) * 5
   \<and> jobs (get_jobs sample_store None (Some ''completed'') None 2 5) = []"
proof -
  have le: "int (totalCount (get_jobs sample_store None (Some ''completed'') None 2 5))
      \<le> (2 - 1) * 5"
    by (simp add: sample_total_count)
  moreover have "jobs (get_jobs sample_store None (Some ''completed'') None 2 5) = []"
    using total_count_before_pagination[of sample_store None "Some ''completed''" None 2 5]
      le by blast
  ultimately show ?thesis by blast
qed

section \<open>Alerts\<close>

lemma long_running_selects:
  "long_running now k js = Inr ls \<Longrightarrow>
     ls = map snd (filter (\<lambda>(i, job). is_long_running (now i) job) (zip [k ..< k + length js] js))"
proof (induction js arbitrary: k ls)
  case Nil
  then show ?case by simp
next
  case (Cons job rest)
  have upt: "[k ..< k + length (job # rest)] = k # [Suc k ..< Suc k + length rest]"
    by (simp add: upt_conv_Cons del: upt_Suc)
  show ?case
  proof (cases "if status job = ''running'' then startTimeParsed job else None")
    case None
    then have "long_running now (Suc k) rest = Inr ls"
      using Cons.prems by simp
    then have "ls = map snd (filter (\<lambda>(i, job). is_long_running (now i) job)
                       (zip [Suc k ..< Suc k + length rest] rest))"
      by (rule Cons.IH)
    moreover have "\<not> is_long_running (now k) job"
      using None by (auto simp: is_long_running_def split: if_splits)
    ultimately show ?thesis unfolding upt by simp
  next
    case (Some start)
    then have run: "status job = ''running''" and st: "startTimeParsed job = Some start"
      by (auto split: if_splits)
    from Cons.prems Some obtain d found where
      d: "clock_sub (now k) start = Inr d" and
      found: "long_running now (Suc k) rest = Inr found" and
      ls: "ls = (if 3 * 60 * 60 * 1000000 < d then job # found else found)"
      by (auto simp: try_bind_def split: sum.splits)
    have "found = map snd (filter (\<lambda>(i, job). is_long_running (now i) job)
                       (zip [Suc k ..< Suc k + length rest] rest))"
      using found by (rule Cons.IH)
    moreover have "is_long_running (now k) job \<longleftrightarrow> 3 * 60 * 60 * 1000000 < d"
      using run st d by (simp add: is_long_running_def)
    ultimately show ?thesis unfolding upt using ls by simp
  qed
qed

lemma long_running_naive:
  assumes "\<forall>k. tzinfo (fst (now k)) = None"
    and "\<forall>job\<in>set js. \<forall>start. startTimeParsed job = Some start \<longrightarrow> tzinfo start = None"
  shows "\<exists>ls. long_running now k js = Inr ls"
  using assms(2)
proof (induction js arbitrary: k)
  case Nil
  then show ?case by simp
next
  case (Cons job rest)
  then obtain found where found: "long_running now (Suc k) rest = Inr found"
    by fastforce
  show ?case
  proof (cases "if status job = ''running'' then startTimeParsed job else None")
    case None
    then show ?thesis using found by simp
  next
    case (Some start)
    then have "tzinfo start = None" using Cons.prems by (auto split: if_splits)
    then have "\<exists>d. clock_sub (now k) start = Inr d"
      using assms(1) by (simp add: clock_sub_def ts_sub_def try_bind_def)
    then show ?thesis using Some found by (auto simp: try_bind_def)
  qed
qed

lemma get_alerts_returns:
  assumes "long_running now 0 (jobs_data st) = Inr ls"
  shows "get_alerts now st =
     Inr \<lparr>alerts =
            (if filter (\<lambda>job. status job = ''delayed'') (jobs_data st) \<noteq> []
             then [delayed_alert (filter (\<lambda>job. status job = ''delayed'') (jobs_data st))]
             else [])
            @ (if filter (\<lambda>job. status job = ''failed'') (jobs_data st) \<noteq> []
               then [failed_alert (filter (\<lambda>job. status job = ''failed'') (jobs_data st))]
               else [])
            @ (if ls \<noteq> [] then [long_running_alert ls] else []),
          reply_time = now (length (jobs_data st))\<rparr>"
  using assms by (simp add: get_alerts_def get_alerts_try_def try_bind_def Let_def)

lemma get_alerts_fails:
  assumes "long_running now 0 (jobs_data st) = Inl e"
  shows "get_alerts now st = Inl ''Internal server error''"
  using assms by (simp add: get_alerts_def get_alerts_try_def try_bind_def Let_def)

lemma str_nat_1: "str_nat (Suc 0) = ''1''"
  by code_simp

text \<open>
  Claim C9. Whenever the scan for long-running jobs completes, \<^verbatim>\<open>get_alerts\<close> replies
  with at most three alerts, in the order warning (delayed jobs), error (failed jobs), info
  (long-running jobs, which are the jobs the specification calls long-running); an alert is
  present exactly when its set of jobs is not empty, and no alert lists zero jobs. The scan
  completes whenever the clock and the parsed starts are naive; when it raises, the reply is
  the error and carries no alert. For a store with exactly one delayed job, exactly one
  failed job and no long-running job, the reply holds exactly two alerts: the warning naming
  the delayed job, then the error naming the failed job.
\<close>

theorem alerts_order:
  "(\<forall>ls. long_running now 0 (jobs_data st) = Inr ls \<longrightarrow>
      (\<exists>reply. get_alerts now st = Inr reply
         \<and> ls = map snd (filter (\<lambda>(i, job). is_long_running (now i) job)
                          (zip [0 ..< length (jobs_data st)] (jobs_data st)))
         \<and> map alert_type (alerts reply) =
              (if \<exists>j\<in>set (jobs_data st). status j = ''delayed'' then [''warning''] else [])
            @ (if \<exists>j\<in>set (jobs_data st). status j = ''failed'' then [''error''] else [])
            @ (if ls \<noteq> [] then [''info''] else [])
         \<and> length (alerts reply) \<le> 3
         \<and> (\<forall>a\<in>set (alerts reply). alert_jobs a \<noteq> [])))
   \<and> ((\<forall>k. tzinfo (fst (now k)) = None)
        \<and> (\<forall>job\<in>set (jobs_data st). \<forall>start.
               startTimeParsed job = Some start \<longrightarrow> tzinfo start = None)
      \<longrightarrow> (\<exists>ls. long_running now 0 (jobs_data st) = Inr ls))
   \<and> (\<forall>e. long_running now 0 (jobs_data st) = Inl e \<longrightarrow>
         get_alerts now st = Inl ''Internal server error'')
   \<and> (\<forall>d f. filter (\<lambda>j. status j = ''delayed'') (jobs_data st) = [d]
          \<and> filter (\<lambda>j. status j = ''failed'') (jobs_data st) = [f]
          \<and> long_running now 0 (jobs_data st) = Inr []
        \<longrightarrow> (\<exists>reply. get_alerts now st = Inr reply
               \<and> alerts reply =
                   [\<lparr>alert_type = ''warning'',
                     message = ''1 job(s) are running longer than expected'',
                     alert_jobs = [jobName d], severity = ''medium''\<rparr>,
                    \<lparr>alert_type = ''error'',
                     message = ''1 job(s) have failed to start'',
                     alert_jobs = [jobName f], severity = ''high''\<rparr>]))"
proof (intro conjI allI impI)
  fix ls
  assume ls: "long_running now 0 (jobs_data st) = Inr ls"
  have sel: "ls = map snd (filter (\<lambda>(i, job). is_long_running (now i) job)
                          (zip [0 ..< length (jobs_data st)] (jobs_data st)))"
    using long_running_selects[OF ls] by simp
  have "map alert_type (alerts (projr (get_alerts now st))) =
              (if \<exists>j\<in>set (jobs_data st). status j = ''delayed'' then [''warning''] else [])
            @ (if \<exists>j\<in>set (jobs_data st). status j = ''failed'' then [''error''] else [])
            @ (if ls \<noteq> [] then [''info''] else [])"
    unfolding get_alerts_returns[OF ls]
    by (auto simp: filter_empty_conv delayed_alert_def failed_alert_def long_running_alert_def)
  moreover have "length (alerts (projr (get_alerts now st))) \<le> 3"
    unfolding get_alerts_returns[OF ls] by simp
  moreover have "\<forall>a\<in>set (alerts (projr (get_alerts now st))). alert_jobs a \<noteq> []"
    unfolding get_alerts_returns[OF ls]
    by (auto simp: delayed_alert_def failed_alert_def long_running_alert_def)
  moreover have "get_alerts now st = Inr (projr (get_alerts now st))"
    unfolding get_alerts_returns[OF ls] by simp
  ultimately show "\<exists>reply. get_alerts now st = Inr reply
         \<and> ls = map snd (filter (\<lambda>(i, job). is_long_running (now i) job)
                          (zip [0 ..< length (jobs_data st)] (jobs_data st)))
         \<and> map alert_type (alerts reply) =
              (if \<exists>j\<in>set (jobs_data st). status j = ''delayed'' then [''warning''] else [])
            @ (if \<exists>j\<in>set (jobs_data st). status j = ''failed'' then [''error''] else [])
            @ (if ls \<noteq> [] then [''info''] else [])
         \<and> length (alerts reply) \<le> 3
         \<and> (\<forall>a\<in>set (alerts reply). alert_jobs a \<noteq> [])"
    using sel by blast
next
  assume "(\<forall>k. tzinfo (fst (now k)) = None)
        \<and> (\<forall>job\<in>set (jobs_data st). \<forall>start.
               startTimeParsed job = Some start \<longrightarrow> tzinfo start = None)"
  then show "\<exists>ls. long_running now 0 (jobs_data st) = Inr ls"
    by (intro long_running_naive) blast+
next
  fix e
  assume "long_running now 0 (jobs_data st) = Inl e"
  then show "get_alerts now st = Inl ''Internal server error''"
    by (rule get_alerts_fails)
next
  fix d f
  assume a: "filter (\<lambda>j. status j = ''delayed'') (jobs_data st) = [d]
          \<and> filter (\<lambda>j. status j = ''failed'') (jobs_data st) = [f]
          \<and> long_running now 0 (jobs_data st) = Inr []"
  then have ls: "long_running now 0 (jobs_data st) = Inr []" by blast
  show "\<exists>reply. get_alerts now st = Inr reply
               \<and> alerts reply =
                   [\<lparr>alert_type = ''warning'',
                     message = ''1 job(s) are running longer than expected'',
                     alert_jobs = [jobName d], severity = ''medium''\<rparr>,
                    \<lparr>alert_type = ''error'',
                     message = ''1 job(s) have failed to start'',
                     alert_jobs = [jobName f], severity = ''high''\<rparr>]"
    unfolding get_alerts_returns[OF ls] using a
    by (simp add: delayed_alert_def failed_alert_def str_nat_1)
qed

lemma sample_store_long_running: "long_running sample_now 0 (jobs_data sample_store) = Inr []"
  by code_simp

lemma sample_store_delayed:
  "filter (\<lambda>j. status j = ''delayed'') (jobs_data sample_store) = [sample_job ''c'' ''delayed'']"
  by code_simp

lemma sample_store_failed:
  "filter (\<lambda>j. status j = ''failed'') (jobs_data sample_store) = [sample_job ''b'' ''failed'']"
  by code_simp

lemma running_store_long_running:
  "long_running sample_now 0 (jobs_data running_store) = Inr (jobs_data running_store)"
  by code_simp

lemma running_store_others:
  "\<not> (\<exists>j\<in>set (jobs_data running_store). status j = ''delayed'')"
  "\<not> (\<exists>j\<in>set (jobs_data running_store). status j = ''failed'')"
  "jobs_data running_store \<noteq> []"
  by (simp_all add: running_store_def sample_running_def sample_job_def)

lemma aware_store_long_running:
  "long_running sample_now 0 (jobs_data aware_store) = Inl TypeError"
  by code_simp

text \<open>
  Claim C9 at three stores: one with a completed, a failed and a delayed job, whose reply is
  the warning and then the error; one with a single job that has been running for four
  hours, whose reply is the info alert alone; and one whose running job has an aware start,
  where the subtraction raises and the reply is the error.
\<close>

theorem alerts_order_witness:
  "map_sum id alerts (get_alerts sample_now sample_store) =
     Inr [\<lparr>alert_type = ''warning'',
           message = ''1 job(s) are running longer than expected'',
           alert_jobs = [''c''], severity = ''medium''\<rparr>,
          \<lparr>alert_type = ''error'',
           message = ''1 job(s) have failed to start'',
           alert_jobs = [''b''], severity = ''high''\<rparr>]
   \<and> map_sum id (\<lambda>reply. map alert_type (alerts reply)) (get_alerts sample_now running_store)
       = Inr [''info'']
   \<and> get_alerts sample_now aware_store = Inl ''Internal server error''"
proof (intro conjI)
  have "\<exists>reply. get_alerts sample_now sample_store = Inr reply
               \<and> alerts reply =
                   [\<lparr>alert_type = ''warning'',
                     message = ''1 job(s) are running longer than expected'',
                     alert_jobs = [jobName (sample_job ''c'' ''delayed'')], severity = ''medium''\<rparr>,
                    \<lparr>alert_type = ''error'',
                     message = ''1 job(s) have failed to start'',
                     alert_jobs = [jobName (sample_job ''b'' ''failed'')], severity = ''high''\<rparr>]"
    using alerts_order[of sample_now sample_store, THEN conjunct2, THEN conjunct2, THEN conjunct2]
      sample_store_delayed sample_store_failed sample_store_long_running
    by blast
  then show "map_sum id alerts (get_alerts sample_now sample_store) =
     Inr [\<lparr>alert_type = ''warning'',
           message = ''1 job(s) are running longer than expected'',
           alert_jobs = [''c''], severity = ''medium''\<rparr>,
          \<lparr>alert_type = ''error'',
           message = ''1 job(s) have failed to start'',
           alert_jobs = [''b''], severity = ''high''\<rparr>]"
    by (auto simp: sample_job_def)
next
  have "\<exists>reply. get_alerts sample_now running_store = Inr reply
         \<and> map alert_type (alerts reply) =
              (if \<exists>j\<in>set (jobs_data running_store). status j = ''delayed'' then [''warning'']
               else [])
            @ (if \<exists>j\<in>set (jobs_data running_store). status j = ''failed'' then [''error'']
               else [])
            @ (if jobs_data running_store \<noteq> [] then [''info''] else [])"
    using alerts_order[of sample_now running_store, THEN conjunct1]
      running_store_long_running
    by blast
  then show "map_sum id (\<lambda>reply. map alert_type (alerts reply))
       (get_alerts sample_now running_store) = Inr [''info'']"
    using running_store_others by auto
next
  show "get_alerts sample_now aware_store = Inl ''Internal server error''"
    using alerts_order[of sample_now aware_store, THEN conjunct2, THEN conjunct2, THEN conjunct1]
      aware_store_long_running
    by blast
qed

section \<open>An end before the start\<close>

text \<open>
  Claim C10. For every row whose two timestamps parse with the end strictly before the
  start, the built job has status \<^verbatim>\<open>completed\<close> and duration \<^verbatim>\<open>Invalid\<close>: the
  negative difference is not more than two hours. So the status \<^verbatim>\<open>completed\<close> does not
  tell that the duration is well formed.
\<close>

theorem end_before_start:
  assumes "load_row to_datetime stamp index r = Inr j"
    and "startTimeParsed j = Some s" "endTimeParsed j = Some e"
    and "ts_sub e s = Inr d" "d < 0"
  shows "status j = ''completed'' \<and> duration j = Some ''Invalid''"
proof -
  have "status j = determine_status (Some s) (Some e)"
    using load_row_derived(1)[OF assms(1)] assms(2,3) by simp
  moreover have "duration j = calculate_duration (Some s) (Some e)"
    using load_row_derived(2)[OF assms(1)] assms(2,3) by simp
  ultimately show ?thesis
    using assms(4,5) by (simp add: determine_status_both calculate_duration_def)
qed

text \<open>
  Claim C10 at a row that starts at 01:00:00 and ends at 00:00:00 of the same day.
\<close>

theorem end_before_start_witness:
  "map_sum id status
     (load_row no_fallback ''0.0'' 0
        (sample_row ''X'' (text_cell ''2024-03-20T01:00:00'') (text_cell ''2024-03-20T00:00:00'')
           nan_cell)) = Inr ''completed''
   \<and> map_sum id duration
     (load_row no_fallback ''0.0'' 0
        (sample_row ''X'' (text_cell ''2024-03-20T01:00:00'') (text_cell ''2024-03-20T00:00:00'')
           nan_cell)) = Inr (Some ''Invalid'')"
proof -
  obtain j where j: "load_row no_fallback ''0.0'' 0
        (sample_row ''X'' (text_cell ''2024-03-20T01:00:00'') (text_cell ''2024-03-20T00:00:00'')
           nan_cell) = Inr j"
    and s: "startTimeParsed j = Some (sample_time 1 0 0)"
    and e: "endTimeParsed j = Some (sample_time 0 0 0)"
    using sample_row_built[OF parse_sample_010000 parse_sample_000000] by blast
  have d: "ts_sub (sample_time 0 0 0) (sample_time 1 0 0) = Inr (- 3600)"
    by (simp add: ts_sub_sample)
  have "status j = ''completed'' \<and> duration j = Some ''Invalid''"
    by (rule end_before_start[OF j s e d]) simp
  then show ?thesis by (simp add: j)
qed

end
